theory Spec2Isabelle
  imports Main "HOL-Library.Extended_Nat"
begin

section \<open>JavaScript string primitives\<close>

text \<open>
  Strings are lists of code units. A HOL \<^typ>\<open>char\<close> has eight bits, so the model
  covers the code units U+0000 to U+00FF; on that range the definitions below follow
  ECMAScript: \<open>isWhiteSpace\<close> is the set that \<open>trim\<close> and the regular expression
  class \<open>\s\<close> use, and \<open>toLowerChar\<close> is \<open>toLowerCase\<close> on one code unit.
\<close>

definition isWhiteSpace :: "char \<Rightarrow> bool" where
  "isWhiteSpace c =
     (c \<in> set [CHR 0x09, CHR 0x0A, CHR 0x0B, CHR 0x0C, CHR 0x0D, CHR 0x20, CHR 0xA0])"

definition isUpperChar :: "char \<Rightarrow> bool" where
  "isUpperChar c =
     (let n = (of_char c :: nat)
      in (65 \<le> n \<and> n \<le> 90) \<or> (192 \<le> n \<and> n \<le> 222 \<and> n \<noteq> 215))"

text \<open>
  The lower-case letter is 32 above the upper-case one; bit 5 is clear in both ranges of
  \<open>isUpperChar\<close>, so adding 32 sets that bit.
\<close>

definition toLowerChar :: "char \<Rightarrow> char" where
  "toLowerChar c =
     (if isUpperChar c
      then (case c of Char b0 b1 b2 b3 b4 b5 b6 b7 \<Rightarrow> Char b0 b1 b2 b3 b4 True b6 b7)
      else c)"

definition toLowerCase :: "string \<Rightarrow> string" where
  "toLowerCase s = map toLowerChar s"

definition trim :: "string \<Rightarrow> string" where
  "trim s = rev (dropWhile isWhiteSpace (rev (dropWhile isWhiteSpace s)))"

fun startsWith :: "string \<Rightarrow> string \<Rightarrow> bool" where
  "startsWith s [] = True"
| "startsWith [] (p # ps) = False"
| "startsWith (c # cs) (p # ps) = (c = p \<and> startsWith cs ps)"

text \<open>\<open>s.includes(p)\<close>: some suffix of \<open>s\<close> starts with \<open>p\<close>.\<close>

fun str_includes :: "string \<Rightarrow> string \<Rightarrow> bool" where
  "str_includes [] p = (p = [])"
| "str_includes (c # cs) p = (startsWith (c # cs) p \<or> str_includes cs p)"

text \<open>
  \<open>s.split(sep)\<close> for a string separator: the pieces between the occurrences of
  \<open>sep\<close>, found from the left without overlap; the empty separator gives the code units.
\<close>

fun split_from :: "string \<Rightarrow> string \<Rightarrow> string \<Rightarrow> string list" where
  "split_from sep acc [] = [rev acc]"
| "split_from sep acc (c # cs) =
     (if startsWith (c # cs) sep
      then rev acc # split_from sep [] (drop (length sep - 1) cs)
      else split_from sep (c # acc) cs)"

definition split :: "string \<Rightarrow> string \<Rightarrow> string list" where
  "split s sep = (if sep = [] then map (\<lambda>c. [c]) s else split_from sep [] s)"

text \<open>
  \<open>s.replace(pat, rep)\<close> with a string pattern replaces the first occurrence only.
  (The source's replacement strings are empty, so the \<open>$\<close> patterns of a
  replacement string play no role.)
\<close>

fun replace :: "string \<Rightarrow> string \<Rightarrow> string \<Rightarrow> string" where
  "replace [] pat rep = (if pat = [] then rep else [])"
| "replace (c # cs) pat rep =
     (if startsWith (c # cs) pat then rep @ drop (length pat) (c # cs)
      else c # replace cs pat rep)"

text \<open>\<open>xs.slice(a, b)\<close> for non-negative indices.\<close>

definition slice :: "'a list \<Rightarrow> nat \<Rightarrow> nat \<Rightarrow> 'a list" where
  "slice xs a b = take (b - a) (drop a xs)"

text \<open>\<open>xs.indexOf(x)\<close>: the first index of \<open>x\<close>, or \<open>-1\<close>.\<close>

fun array_indexOf :: "'a list \<Rightarrow> 'a \<Rightarrow> int" where
  "array_indexOf [] x = -1"
| "array_indexOf (y # ys) x =
     (if y = x then 0
      else (if array_indexOf ys x < 0 then -1 else array_indexOf ys x + 1))"

text \<open>\<open>n.toString()\<close> and template interpolation of a non-negative integer.\<close>

definition digit_char :: "nat \<Rightarrow> char" where
  "digit_char d = ''0123456789'' ! d"

function toString :: "nat \<Rightarrow> string" where
  "toString n =
     (if n < 10 then [digit_char n] else toString (n div 10) @ [digit_char (n mod 10)])"
  by pat_completeness auto
termination
  by (relation "measure (\<lambda>n. n)") auto

declare toString.simps [simp del]

subsection \<open>The regular expressions of the quiz parser\<close>

text \<open>The character class \<open>[A-D]\<close>: code units 65 to 68.\<close>

definition in_class_A_D :: "char \<Rightarrow> bool" where
  "in_class_A_D c = (65 \<le> (of_char c :: nat) \<and> (of_char c :: nat) \<le> 68)"

text \<open>\<open>line.match(/[A-D]/)?.[0]\<close>: the leftmost code unit in the class, if any.\<close>

fun match_A_D :: "string \<Rightarrow> char option" where
  "match_A_D [] = None"
| "match_A_D (c # cs) = (if in_class_A_D c then Some c else match_A_D cs)"

text \<open>\<open>line.replace(/^[A-D]\)\s*/, '')\<close>: anchored at the start of the line.\<close>

fun strip_option_prefix :: "string \<Rightarrow> string" where
  "strip_option_prefix (c # p # rest) =
     (if in_class_A_D c \<and> p = CHR '')'' then dropWhile isWhiteSpace rest else c # p # rest)"
| "strip_option_prefix s = s"

text \<open>
  \<open>line.replace(/explanation:\s*/i, '')\<close>: the leftmost match of the marker in any
  letter case, with the white space after it, is removed. (Without the \<open>u\<close> flag a
  code unit outside ASCII never matches an ASCII letter, and \<open>toLowerChar\<close> maps only
  ASCII letters to ASCII letters, so comparing the lowered text is the same test.)
\<close>

fun strip_explanation_marker :: "string \<Rightarrow> string" where
  "strip_explanation_marker [] = []"
| "strip_explanation_marker (c # cs) =
     (if startsWith (toLowerCase (c # cs)) ''explanation:''
      then dropWhile isWhiteSpace (drop (length ''explanation:'') (c # cs))
      else c # strip_explanation_marker cs)"

section \<open>Data model (types/content.ts)\<close>

datatype difficulty = easy | medium | hard

record Flashcard =
  fc_id :: string
  fc_front :: string
  fc_back :: string
  fc_difficulty :: difficulty
  lastReviewed :: "nat option"

record QuizQuestion =
  qq_id :: string
  question :: string
  options :: "string list"
  correctAnswer :: int
  explanation :: "string option"

section \<open>Response parsing (pages/StudyDashboard.tsx)\<close>

subsection \<open>Flashcards\<close>

text \<open>
  \<open>const [front, back] = line.split(' | A: ')\<close>: the first two pieces; \<open>back\<close> is
  \<open>undefined\<close> when the separator does not occur. \<open>back?.trim() || ''\<close> is then the
  empty string. The array that \<open>split\<close> gives is never empty, so \<open>front\<close> is its
  first piece. \<open>index\<close> is the index that \<open>map\<close> passes: the position of the line
  among the lines kept by the first \<open>filter\<close>.
\<close>

definition flashcard_of_line :: "string \<Rightarrow> nat \<Rightarrow> string \<Rightarrow> Flashcard" where
  "flashcard_of_line cid index line =
     (let pieces = split line '' | A: '';
          front_piece = hd pieces;
          back_piece = (case tl pieces of [] \<Rightarrow> None | b # _ \<Rightarrow> Some b)
      in \<lparr> fc_id = cid @ ''-flashcard-'' @ toString index,
           fc_front = trim (replace front_piece ''Q: '' ''''),
           fc_back = (case back_piece of None \<Rightarrow> '''' | Some b \<Rightarrow> trim b),
           fc_difficulty = medium,
           lastReviewed = None \<rparr>)"

definition map_index :: "('a \<Rightarrow> nat \<Rightarrow> 'b) \<Rightarrow> 'a list \<Rightarrow> 'b list" where
  "map_index f xs = map (\<lambda>(x, i). f x i) (zip xs [0..<length xs])"

definition parseFlashcards :: "string \<Rightarrow> string \<Rightarrow> Flashcard list" where
  "parseFlashcards cid flashcardsText =
     filter (\<lambda>card. fc_front card \<noteq> [] \<and> fc_back card \<noteq> [])
       (map_index (\<lambda>line index. flashcard_of_line cid index line)
          (filter (\<lambda>line. str_includes line ''Q:'' \<and> str_includes line ''A:'')
             (split flashcardsText [CHR 0x0A])))"

subsection \<open>Quiz\<close>

definition questionBlocks :: "string \<Rightarrow> string list" where
  "questionBlocks quizText = filter (\<lambda>block. trim block \<noteq> []) (split quizText ''Q:'')"

definition blockLines :: "string \<Rightarrow> string list" where
  "blockLines block = filter (\<lambda>line. trim line \<noteq> []) (split block [CHR 0x0A])"

text \<open>
  The body of the \<open>if (lines.length >= 6)\<close> branch. It is only called under that
  guard, so \<open>lines[0]\<close> exists.
\<close>

definition makeQuestion :: "string \<Rightarrow> nat \<Rightarrow> string list \<Rightarrow> QuizQuestion" where
  "makeQuestion cid i lines =
     (let correctLine = find (\<lambda>line. str_includes (toLowerCase line) ''correct:'') lines;
          correctLetter = (case correctLine of None \<Rightarrow> None | Some l \<Rightarrow> match_A_D l);
          explanationLine =
            find (\<lambda>line. str_includes (toLowerCase line) ''explanation:'') lines
      in \<lparr> qq_id = cid @ ''-quiz-'' @ toString i,
           question = trim (lines ! 0),
           options = map (\<lambda>line. trim (strip_option_prefix line)) (slice lines 1 5),
           correctAnswer =
             (case correctLetter of None \<Rightarrow> 0 | Some c \<Rightarrow> array_indexOf ''ABCD'' c),
           explanation =
             Some (case explanationLine of None \<Rightarrow> ''''
                   | Some l \<Rightarrow> strip_explanation_marker l) \<rparr>)"

text \<open>The loop \<open>for (let i = 0; i < questionBlocks.length && i < 5; i++)\<close>.\<close>

function quizLoop ::
  "string \<Rightarrow> string list \<Rightarrow> nat \<Rightarrow> QuizQuestion list \<Rightarrow> QuizQuestion list" where
  "quizLoop cid blocks i questions =
     (if i < length blocks \<and> i < 5
      then (if 6 \<le> length (blockLines (blocks ! i))
            then quizLoop cid blocks (i + 1)
                   (questions @ [makeQuestion cid i (blockLines (blocks ! i))])
            else quizLoop cid blocks (i + 1) questions)
      else questions)"
  by pat_completeness auto
termination
  by (relation "measure (\<lambda>(cid, blocks, i, questions). 5 - i)") auto

declare quizLoop.simps [simp del]

definition parseQuiz :: "string \<Rightarrow> string \<Rightarrow> QuizQuestion list" where
  "parseQuiz cid quizText = quizLoop cid (questionBlocks quizText) 0 []"


section \<open>Content store (components/ContentProvider.tsx)\<close>

datatype content_type = T_pdf | T_youtube | T_text

text \<open>\<open>createdAt\<close> is a \<open>Date\<close>: its time value in milliseconds.\<close>

record StudyContent =
  sc_id :: string
  title :: string
  sc_type :: content_type
  content :: string
  summary :: "string option"
  flashcards :: "Flashcard list option"
  quiz :: "QuizQuestion list option"
  createdAt :: nat

text \<open>\<open>Omit<StudyContent, 'id' | 'createdAt'>\<close>, the argument of \<open>addContent\<close>.\<close>

record NewContent =
  nc_title :: string
  nc_type :: content_type
  nc_content :: string
  nc_summary :: "string option"
  nc_flashcards :: "Flashcard list option"
  nc_quiz :: "QuizQuestion list option"

text \<open>
  \<open>Partial<StudyContent>\<close>, the argument of \<open>updateContent\<close>: \<open>None\<close> is a key that
  the object does not have, \<open>Some v\<close> a key with the value \<open>v\<close>.
\<close>

record ContentUpdates =
  u_id :: "string option"
  u_title :: "string option"
  u_type :: "content_type option"
  u_content :: "string option"
  u_summary :: "string option"
  u_flashcards :: "Flashcard list option"
  u_quiz :: "QuizQuestion list option"
  u_createdAt :: "nat option"

definition no_updates :: ContentUpdates where
  "no_updates = \<lparr> u_id = None, u_title = None, u_type = None, u_content = None,
     u_summary = None, u_flashcards = None, u_quiz = None, u_createdAt = None \<rparr>"

text \<open>The object spread \<open>{ ...content, ...updates }\<close>.\<close>

definition spread :: "StudyContent \<Rightarrow> ContentUpdates \<Rightarrow> StudyContent" where
  "spread c u =
     \<lparr> sc_id = (case u_id u of None \<Rightarrow> sc_id c | Some v \<Rightarrow> v),
       title = (case u_title u of None \<Rightarrow> title c | Some v \<Rightarrow> v),
       sc_type = (case u_type u of None \<Rightarrow> sc_type c | Some v \<Rightarrow> v),
       content = (case u_content u of None \<Rightarrow> content c | Some v \<Rightarrow> v),
       summary = (case u_summary u of None \<Rightarrow> summary c | Some v \<Rightarrow> Some v),
       flashcards = (case u_flashcards u of None \<Rightarrow> flashcards c | Some v \<Rightarrow> Some v),
       quiz = (case u_quiz u of None \<Rightarrow> quiz c | Some v \<Rightarrow> Some v),
       createdAt = (case u_createdAt u of None \<Rightarrow> createdAt c | Some v \<Rightarrow> v) \<rparr>"

text \<open>The two \<open>useState\<close> cells of the provider.\<close>

record ContentState =
  contents :: "StudyContent list"
  currentContent :: "StudyContent option"

definition initialContentState :: ContentState where
  "initialContentState = \<lparr> contents = [], currentContent = None \<rparr>"

text \<open>
  \<open>addContent\<close>: \<open>now\<close> is the value of \<open>Date.now()\<close> and \<open>date\<close> the time value of
  \<open>new Date()\<close> at the call.
\<close>

definition addContent :: "NewContent \<Rightarrow> nat \<Rightarrow> nat \<Rightarrow> ContentState \<Rightarrow> ContentState" where
  "addContent c now date s =
     (let newContent =
        \<lparr> sc_id = toString now, title = nc_title c, sc_type = nc_type c,
          content = nc_content c, summary = nc_summary c, flashcards = nc_flashcards c,
          quiz = nc_quiz c, createdAt = date \<rparr>
      in \<lparr> contents = contents s @ [newContent], currentContent = Some newContent \<rparr>)"


text \<open>
  The functions that the provider hands out are closures of one render. \<open>updateContent\<close>
  and \<open>deleteContent\<close> test \<open>currentContent?.id === id\<close> on the \<open>currentContent\<close> of
  that render, the argument \<open>closure_current\<close>; the updater functions that they pass to
  \<open>setContents\<close> and \<open>setCurrentContent\<close> receive the latest state, the argument \<open>s\<close>.
  A handler that calls them at once has \<open>closure_current = currentContent s\<close>; a handler
  that calls them after an \<open>await\<close> may hold an older render's value.
\<close>

definition updateContent ::
  "StudyContent option \<Rightarrow> string \<Rightarrow> ContentUpdates \<Rightarrow> ContentState \<Rightarrow> ContentState" where
  "updateContent closure_current cid updates s =
     \<lparr> contents = map (\<lambda>c. if sc_id c = cid then spread c updates else c) (contents s),
       currentContent =
         (if map_option sc_id closure_current = Some cid
          then (case currentContent s of
                  None \<Rightarrow> None
                | Some prev \<Rightarrow> Some (spread prev updates))
          else currentContent s) \<rparr>"


section \<open>Language-model client (components/OllamaProvider.tsx)\<close>

text \<open>
  A thrown value: a \<open>PDFProcessingError\<close> with its message and code, another \<open>Error\<close>
  with its name and message, or a value that is not an \<open>Error\<close>.
\<close>

datatype thrown =
    PDFProcessingError string string
  | JsError string string
  | NotAnError

text \<open>
  What \<open>await fetch(...)\<close> gives: a rejection (network failure, or the abort of the
  timeout with an error named \<open>AbortError\<close>), or a response with \<open>ok\<close>, \<open>status\<close>,
  \<open>statusText\<close> and the outcome of \<open>response.json()\<close>.
\<close>

datatype 'a fetch_result =
    FetchRejects thrown
  | FetchResponse bool nat string "thrown + 'a"

record OllamaModel =
  model_name :: string
  model_size :: string
  modified_at :: string

record OllamaState =
  models :: "OllamaModel list"
  selectedModel :: string
  isConnected :: bool
  isLoading :: bool
  ollamaUrl :: string

definition initialOllamaState :: OllamaState where
  "initialOllamaState =
     \<lparr> models = [], selectedModel = ''llama2'', isConnected = False, isLoading = False,
       ollamaUrl = ''http://localhost:11434'' \<rparr>"

text \<open>
  \<open>loadModels\<close>. \<open>fetch\<close> maps the requested URL to what the request gives; the body of a
  response is the \<open>models\<close> key of the JSON (\<open>None\<close> when the key is missing). The
  \<open>catch\<close> block is \<open>loadModels_catch\<close>; the \<open>finally\<close> block resets \<open>isLoading\<close>.
\<close>

definition loadModels_catch :: "OllamaState \<Rightarrow> OllamaState" where
  "loadModels_catch s = s\<lparr> isConnected := False, models := [] \<rparr>"

definition loadModels ::
  "bool \<Rightarrow> (string \<Rightarrow> OllamaModel list option fetch_result) \<Rightarrow> OllamaState \<Rightarrow> OllamaState" where
  "loadModels isDeployed fetch s =
     (if isDeployed then s\<lparr> isLoading := False, isConnected := False, models := [] \<rparr>
      else
        (let s1 = s\<lparr> isLoading := True \<rparr>;
             s2 =
               (case fetch (ollamaUrl s @ ''/api/tags'') of
                  FetchRejects e \<Rightarrow> loadModels_catch s1
                | FetchResponse ok status statusText body \<Rightarrow>
                    if ok then
                      (case body of
                         Inl e \<Rightarrow> loadModels_catch s1
                       | Inr data \<Rightarrow>
                           (let s3 = s1\<lparr> models := (case data of None \<Rightarrow> [] | Some ms \<Rightarrow> ms),
                                         isConnected := True \<rparr>
                            in case data of
                                 Some (m # ms) \<Rightarrow>
                                   if selectedModel s = [] then s3\<lparr> selectedModel := model_name m \<rparr>
                                   else s3
                               | _ \<Rightarrow> s3))
                    else s1\<lparr> isConnected := False \<rparr>)
         in s2\<lparr> isLoading := False \<rparr>))"

text \<open>
  \<open>generateText(prompt)\<close> (the callers pass no \<open>context\<close>). \<open>fetch\<close> maps the model and
  the prompt of the request body to what the request gives; the body of a response is the
  \<open>response\<close> key of the JSON.
\<close>

definition generateText_catch :: "thrown \<Rightarrow> thrown + string" where
  "generateText_catch e =
     (case e of
        JsError name message \<Rightarrow>
          if name = ''AbortError''
          then Inl (JsError ''Error'' ''Text generation timed out. Please try again.'')
          else Inl (JsError ''Error'' (''Text generation failed: '' @ message))
      | PDFProcessingError message code \<Rightarrow>
          Inl (JsError ''Error'' (''Text generation failed: '' @ message))
      | NotAnError \<Rightarrow> Inl NotAnError)"

definition generateText ::
  "(string \<Rightarrow> string \<Rightarrow> string option fetch_result) \<Rightarrow> OllamaState \<Rightarrow> string \<Rightarrow> thrown + string" where
  "generateText fetch s prompt =
     (if \<not> isConnected s
      then Inl (JsError ''Error''
                 ''Ollama is not connected. Please ensure Ollama is running locally.'')
      else
        (case fetch (selectedModel s) prompt of
           FetchRejects e \<Rightarrow> generateText_catch e
         | FetchResponse ok status statusText body \<Rightarrow>
             if \<not> ok
             then generateText_catch
                    (JsError ''Error''
                       (''Failed to generate text: '' @ toString status @ '' '' @ statusText))
             else
               (case body of
                  Inl e \<Rightarrow> generateText_catch e
                | Inr data \<Rightarrow> Inr (case data of None \<Rightarrow> [] | Some r \<Rightarrow> r))))"


section \<open>Generation operations (pages/StudyDashboard.tsx)\<close>

datatype toast = ToastError string | ToastSuccess string

text \<open>\<open>error instanceof Error ? error.message : fallback\<close>.\<close>

definition message_or :: "thrown \<Rightarrow> string \<Rightarrow> string" where
  "message_or e fallback =
     (case e of
        JsError name message \<Rightarrow> message
      | PDFProcessingError message code \<Rightarrow> message
      | NotAnError \<Rightarrow> fallback)"

definition not_connected_message :: string where
  "not_connected_message = ''Ollama is not connected. Please ensure Ollama is running locally.''"

definition summaryPrompt :: "string \<Rightarrow> string" where
  "summaryPrompt body =
     ''Please provide a concise summary of the following content. Focus on the key points and main ideas:''
     @ [CHR 0x0A, CHR 0x0A] @ body"

definition demoSummary :: string where
  "demoSummary =
     ''Demo Summary (Ollama not connected): This is a sample AI-generated summary of your content. ''
     @ ''In the local version with Ollama running, this would contain an actual AI-powered summary ''
     @ ''of your uploaded content with key insights and main points extracted automatically.''"

definition flashcardsPrompt :: "string \<Rightarrow> string" where
  \<open>flashcardsPrompt body =
     ''Create 10 flashcards from the following content. Format each flashcard as "Q: [question] | A: [answer]" on separate lines:''
     @ [CHR 0x0A, CHR 0x0A] @ body\<close>

definition demoFlashcards :: string where
  "demoFlashcards =
     ''Q: What is this demo showing? | A: This is a sample flashcard generated in demo mode''
     @ [CHR 0x0A] @
     ''Q: How do I get real AI flashcards? | A: Run this app locally with Ollama installed''
     @ [CHR 0x0A] @
     ''Q: What would real flashcards contain? | A: AI-generated questions and answers based on your actual content''
     @ [CHR 0x0A] @
     ''Q: Is this functionality working? | A: Yes, but with demo data instead of real AI generation''"

definition quizPrompt :: "string \<Rightarrow> string" where
  "quizPrompt body =
     ''Create 5 multiple choice questions from the following content. Format each question as:''
     @ [CHR 0x0A] @ ''Q: [question]''
     @ [CHR 0x0A] @ ''A) [option 1]''
     @ [CHR 0x0A] @ ''B) [option 2]''
     @ [CHR 0x0A] @ ''C) [option 3]''
     @ [CHR 0x0A] @ ''D) [option 4]''
     @ [CHR 0x0A] @ ''Correct: [A/B/C/D]''
     @ [CHR 0x0A] @ ''Explanation: [brief explanation]''
     @ [CHR 0x0A, CHR 0x0A] @ ''Content: '' @ body"

definition demoQuiz :: string where
  "demoQuiz =
     ''Q: What type of app is this?''
     @ [CHR 0x0A] @ ''A) A real AI-powered learning platform''
     @ [CHR 0x0A] @ ''B) A demo version of YouLearn.ai''
     @ [CHR 0x0A] @ ''C) A simple text editor''
     @ [CHR 0x0A] @ ''D) A file storage system''
     @ [CHR 0x0A] @ ''Correct: B''
     @ [CHR 0x0A] @ ''Explanation: This is a demo version that shows the interface and functionality, but uses sample responses instead of real AI generation.''
     @ [CHR 0x0A, CHR 0x0A] @ ''Q: How can you get real AI features?''
     @ [CHR 0x0A] @ ''A) Pay for a premium subscription''
     @ [CHR 0x0A] @ ''B) Wait for the next update''
     @ [CHR 0x0A] @ ''C) Run the app locally with Ollama installed''
     @ [CHR 0x0A] @ ''D) Contact customer support''
     @ [CHR 0x0A] @ ''Correct: C''
     @ [CHR 0x0A] @ ''Explanation: The real AI features work when you run this app locally with Ollama installed and running.''"

text \<open>
  The three operations have the same shape: two guards that return after an error toast,
  the model's response (the demo text when deployed), and \<open>updateContent\<close> with one key;
  a thrown error is caught and shown, and the store is not touched. The component's own
  \<open>isGenerating\<close> and \<open>generationProgress\<close> cells are display state and are left out.

  The handler is a closure of the render at the click: it reads the \<open>currentContent\<close> and
  the \<open>isConnected\<close> of that render and calls the \<open>updateContent\<close> of that render.
  \<open>s_click\<close> is the store at the click. When not deployed the handler awaits
  \<open>generateText\<close>, and the store may change meanwhile: \<open>s_settled\<close> is the store when
  the promise settles, the state that the updaters of \<open>updateContent\<close> receive. When
  deployed nothing is awaited and the updaters receive the store of the click.
\<close>

definition store_at_update :: "bool \<Rightarrow> ContentState \<Rightarrow> ContentState \<Rightarrow> ContentState" where
  "store_at_update isDeployed s_click s_settled = (if isDeployed then s_click else s_settled)"

definition generateSummary ::
  "bool \<Rightarrow> (string \<Rightarrow> string \<Rightarrow> string option fetch_result) \<Rightarrow> OllamaState \<Rightarrow>
   ContentState \<Rightarrow> ContentState \<Rightarrow> ContentState \<times> toast" where
  "generateSummary isDeployed fetch ollama s_click s_settled =
     (case currentContent s_click of
        None \<Rightarrow> (s_click, ToastError ''No content selected'')
      | Some cur \<Rightarrow>
          if \<not> isConnected ollama \<and> \<not> isDeployed
          then (s_click, ToastError not_connected_message)
          else
            (case (if isDeployed then Inr demoSummary
                   else generateText fetch ollama (summaryPrompt (content cur))) of
               Inl e \<Rightarrow>
                 (store_at_update isDeployed s_click s_settled,
                  ToastError (message_or e ''Failed to generate summary''))
             | Inr summaryText \<Rightarrow>
                 (updateContent (currentContent s_click) (sc_id cur)
                    (no_updates\<lparr> u_summary := Some summaryText \<rparr>)
                    (store_at_update isDeployed s_click s_settled),
                  ToastSuccess ''Summary generated successfully!'')))"

definition generateFlashcards ::
  "bool \<Rightarrow> (string \<Rightarrow> string \<Rightarrow> string option fetch_result) \<Rightarrow> OllamaState \<Rightarrow>
   ContentState \<Rightarrow> ContentState \<Rightarrow> ContentState \<times> toast" where
  "generateFlashcards isDeployed fetch ollama s_click s_settled =
     (case currentContent s_click of
        None \<Rightarrow> (s_click, ToastError ''No content selected'')
      | Some cur \<Rightarrow>
          if \<not> isConnected ollama \<and> \<not> isDeployed
          then (s_click, ToastError not_connected_message)
          else
            (case (if isDeployed then Inr demoFlashcards
                   else generateText fetch ollama (flashcardsPrompt (content cur))) of
               Inl e \<Rightarrow>
                 (store_at_update isDeployed s_click s_settled,
                  ToastError (message_or e ''Failed to generate flashcards''))
             | Inr flashcardsText \<Rightarrow>
                 (let cards = parseFlashcards (sc_id cur) flashcardsText
                  in (updateContent (currentContent s_click) (sc_id cur)
                        (no_updates\<lparr> u_flashcards := Some cards \<rparr>)
                        (store_at_update isDeployed s_click s_settled),
                      ToastSuccess (''Generated '' @ toString (length cards) @ '' flashcards!'')))))"

definition generateQuiz ::
  "bool \<Rightarrow> (string \<Rightarrow> string \<Rightarrow> string option fetch_result) \<Rightarrow> OllamaState \<Rightarrow>
   ContentState \<Rightarrow> ContentState \<Rightarrow> ContentState \<times> toast" where
  "generateQuiz isDeployed fetch ollama s_click s_settled =
     (case currentContent s_click of
        None \<Rightarrow> (s_click, ToastError ''No content selected'')
      | Some cur \<Rightarrow>
          if \<not> isConnected ollama \<and> \<not> isDeployed
          then (s_click, ToastError not_connected_message)
          else
            (case (if isDeployed then Inr demoQuiz
                   else generateText fetch ollama (quizPrompt (content cur))) of
               Inl e \<Rightarrow>
                 (store_at_update isDeployed s_click s_settled,
                  ToastError (message_or e ''Failed to generate quiz''))
             | Inr quizText \<Rightarrow>
                 (let questions = parseQuiz (sc_id cur) quizText
                  in (updateContent (currentContent s_click) (sc_id cur)
                        (no_updates\<lparr> u_quiz := Some questions \<rparr>)
                        (store_at_update isDeployed s_click s_settled),
                      ToastSuccess
                        (''Generated '' @ toString (length questions) @ '' quiz questions!'')))))"

section \<open>PDF text extraction (utils/pdfProcessor.ts)\<close>

subsection \<open>The file, the library and time\<close>

text \<open>
  \<open>processPDFFile\<close> awaits the browser and pdf.js. Each awaited call is given by what it
  settles with and by the time it takes, in milliseconds; \<open>\<infinity>\<close> is a call that never
  settles. The code between two awaits takes no time. The callback \<open>onProgress\<close> and the
  calls \<open>page.cleanup()\<close>, \<open>pdf.destroy()\<close> and \<open>console.warn\<close> return normally, and
  are recorded, with the time of the call, in a log, as are the call of \<open>pdf.getPage\<close>
  and the arrival of the page it gives.
\<close>

record File =
  file_type :: string
  file_size :: nat
  file_name :: string

record PDFInfo =
  Title :: "string option"

text \<open>
  What \<open>pdf.getPage(n)\<close> followed by \<open>page.getTextContent(...)\<close> gives for one page:
  the first call rejects; or it gives a page and the second call rejects; or the second
  call gives the \<open>str\<close> of each text item.
\<close>

datatype page_behaviour =
    GetPageRejects enat
  | GetTextContentRejects enat enat
  | TextContent enat enat "string list"

text \<open>
  \<open>pdf.getMetadata().catch(() => null)\<close>: \<open>None\<close> is the rejection (the value \<open>null\<close>),
  \<open>Some i\<close> a metadata object whose \<open>info\<close> is \<open>i\<close>.
\<close>

record PDFDocumentProxy =
  pages :: "page_behaviour list"
  getMetadata_time :: enat
  getMetadata_result :: "PDFInfo option option"

definition numPages :: "PDFDocumentProxy \<Rightarrow> nat" where
  "numPages pdf = length (pages pdf)"

text \<open>pdf.js rejects a page number outside \<open>1..numPages\<close>.\<close>

definition getPage :: "PDFDocumentProxy \<Rightarrow> nat \<Rightarrow> page_behaviour" where
  "getPage pdf pageNum =
     (if 1 \<le> pageNum \<and> pageNum \<le> numPages pdf then pages pdf ! (pageNum - 1)
      else GetPageRejects 0)"

text \<open>
  \<open>getDocument\<close> rejects with an \<open>Error\<close> object, given by its name and message.
\<close>

record Environment =
  workerSrc_set :: bool
  arrayBuffer_time :: enat
  arrayBuffer_result :: "thrown + unit"
  getDocument_time :: enat
  getDocument_result :: "(string \<times> string) + PDFDocumentProxy"

record PDFProcessingOptions =
  maxPages :: "nat option"
  timeout :: "nat option"

record PDFProcessingResult =
  result_text :: string
  pageCount :: nat
  result_title :: "string option"
  result_metadata :: "PDFInfo option"

text \<open>
  The values passed to \<open>onProgress\<close>: a constant, or \<open>30 + (pageNum / numPages) * 60\<close>,
  kept as the two numbers it is computed from.
\<close>

datatype progress_value = Fixed nat | PageFraction nat nat

datatype event =
    Progress progress_value
  | GetPageCalled nat
  | PageAcquired nat
  | PageCleanup nat
  | Warn nat
  | Destroy

subsection \<open>One page\<close>

fun join :: "string list \<Rightarrow> string \<Rightarrow> string" where
  "join [] sep = []"
| "join [x] sep = x"
| "join (x # y # ys) sep = x @ sep @ join (y # ys) sep"

text \<open>\<open>s.replace(/\s+/g, ' ')\<close>: every maximal run of white space becomes one space.\<close>

function collapse_whitespace :: "string \<Rightarrow> string" where
  "collapse_whitespace [] = []"
| "collapse_whitespace (c # cs) =
     (if isWhiteSpace c then CHR '' '' # collapse_whitespace (dropWhile isWhiteSpace cs)
      else c # collapse_whitespace cs)"
  by pat_completeness auto
termination
  by (relation "measure length") (auto simp: length_dropWhile_le less_Suc_eq_le)

definition pageText :: "string list \<Rightarrow> string" where
  "pageText items =
     trim (collapse_whitespace
       (join (filter (\<lambda>str. str \<noteq> [] \<and> trim str \<noteq> []) items) '' ''))"

record loop_state =
  fullText :: string
  clock :: enat
  run_log :: "(enat \<times> event) list"

text \<open>
  The body of the page loop, a \<open>try\<close> whose \<open>catch\<close> logs a warning and goes on. In the
  \<open>try\<close>, \<open>page.cleanup()\<close> is the last statement.
\<close>

definition processPage :: "PDFDocumentProxy \<Rightarrow> nat \<Rightarrow> nat \<Rightarrow> loop_state \<Rightarrow> loop_state" where
  "processPage pdf n pageNum st =
     (case getPage pdf pageNum of
        GetPageRejects d \<Rightarrow>
          st\<lparr> clock := clock st + d,
              run_log := run_log st @
                [(clock st, GetPageCalled pageNum),
                 (clock st + d, Warn pageNum)] \<rparr>
      | GetTextContentRejects d1 d2 \<Rightarrow>
          st\<lparr> clock := clock st + d1 + d2,
              run_log := run_log st @
                [(clock st, GetPageCalled pageNum),
                 (clock st + d1, PageAcquired pageNum),
                 (clock st + d1 + d2, Warn pageNum)] \<rparr>
      | TextContent d1 d2 items \<Rightarrow>
          st\<lparr> fullText :=
                (if pageText items \<noteq> []
                 then fullText st @ pageText items @ [CHR 0x0A, CHR 0x0A]
                 else fullText st),
              clock := clock st + d1 + d2,
              run_log := run_log st @
                [(clock st, GetPageCalled pageNum),
                 (clock st + d1, PageAcquired pageNum),
                 (clock st + d1 + d2, Progress (PageFraction pageNum n)),
                 (clock st + d1 + d2, PageCleanup pageNum)] \<rparr>)"

text \<open>\<open>for (let pageNum = 1; pageNum <= numPages; pageNum++)\<close>, with \<open>n\<close> the clamped count.\<close>

function pageLoop :: "PDFDocumentProxy \<Rightarrow> nat \<Rightarrow> nat \<Rightarrow> loop_state \<Rightarrow> loop_state" where
  "pageLoop pdf n pageNum st =
     (if pageNum \<le> n then pageLoop pdf n (pageNum + 1) (processPage pdf n pageNum st)
      else st)"
  by pat_completeness auto
termination
  by (relation "measure (\<lambda>(pdf, n, pageNum, st). Suc n - pageNum)") auto

declare pageLoop.simps [simp del]

subsection \<open>The processing promise and the race\<close>

text \<open>
  A run of the processing promise: what it settles with, when, and the log of its calls.
  An entry of the log, or a settling, at time \<open>\<infinity>\<close> never happens.
\<close>

record processing_run =
  outcome :: "thrown + PDFProcessingResult"
  settled_at :: enat
  events :: "(enat \<times> event) list"

definition load_error :: "string \<times> string \<Rightarrow> thrown" where
  "load_error e =
     (if fst e = ''PasswordException''
      then PDFProcessingError ''PDF is password protected'' ''PASSWORD_PROTECTED''
      else if fst e = ''InvalidPDFException''
      then PDFProcessingError ''Invalid or corrupted PDF file'' ''INVALID_PDF''
      else PDFProcessingError (''Failed to load PDF: '' @ snd e) ''LOAD_ERROR'')"

text \<open>\<open>metadata?.info?.Title || file.name.replace('.pdf', '')\<close> and the returned object.\<close>

definition result_of :: "File \<Rightarrow> PDFDocumentProxy \<Rightarrow> string \<Rightarrow> PDFProcessingResult" where
  "result_of file pdf full =
     (let info = (case getMetadata_result pdf of None \<Rightarrow> None | Some i \<Rightarrow> i);
          metaTitle = (case info of None \<Rightarrow> None | Some i \<Rightarrow> Title i);
          fallback = replace (file_name file) ''.pdf'' []
      in \<lparr> result_text = trim full,
           pageCount = numPages pdf,
           result_title =
             Some (case metaTitle of
                     None \<Rightarrow> fallback
                   | Some t \<Rightarrow> if t \<noteq> [] then t else fallback),
           result_metadata = info \<rparr>)"

text \<open>The body of the processing promise; \<open>maxPages_opt\<close> is the option after its default.\<close>

definition processing :: "Environment \<Rightarrow> File \<Rightarrow> nat \<Rightarrow> processing_run" where
  "processing env file maxPages_opt =
     (let t1 = arrayBuffer_time env in
      case arrayBuffer_result env of
        Inl e \<Rightarrow> \<lparr> outcome = Inl e, settled_at = t1, events = [] \<rparr>
      | Inr _ \<Rightarrow>
          (let t2 = t1 + getDocument_time env in
           case getDocument_result env of
             Inl e \<Rightarrow>
               \<lparr> outcome = Inl (load_error e), settled_at = t2,
                 events = [(t1, Progress (Fixed 15))] \<rparr>
           | Inr pdf \<Rightarrow>
               (let n = min (numPages pdf) maxPages_opt;
                    t3 = t2 + getMetadata_time pdf;
                    st = pageLoop pdf n 1
                           \<lparr> fullText = [], clock = t3,
                             run_log = [(t1, Progress (Fixed 15)), (t2, Progress (Fixed 25)),
                                        (t3, Progress (Fixed 30))] \<rparr>;
                    entries = run_log st @ [(clock st, Progress (Fixed 95)), (clock st, Destroy)]
                in if trim (fullText st) = []
                   then \<lparr> outcome = Inl (PDFProcessingError ''No text content found in PDF''
                                            ''NO_TEXT''),
                          settled_at = clock st, events = entries \<rparr>
                   else \<lparr> outcome = Inr (result_of file pdf (fullText st)),
                          settled_at = clock st,
                          events = entries @ [(clock st, Progress (Fixed 100))] \<rparr>)))"

text \<open>
  \<open>Promise.race([processingPromise, timeoutPromise])\<close>: the timer is set before the
  processing starts, and the race settles with the promise that settles first; the
  processing wins when it settles before the timer fires.
\<close>

definition race :: "processing_run \<Rightarrow> nat \<Rightarrow> thrown + PDFProcessingResult" where
  "race run timeout_ms =
     (if settled_at run < enat timeout_ms then outcome run
      else Inl (PDFProcessingError ''PDF processing timed out'' ''TIMEOUT''))"

text \<open>The outer \<open>catch\<close>: every failure leaves as a \<open>PDFProcessingError\<close>.\<close>

definition normalize_error :: "thrown \<Rightarrow> thrown" where
  "normalize_error e =
     (case e of
        PDFProcessingError message code \<Rightarrow> PDFProcessingError message code
      | JsError name message \<Rightarrow>
          PDFProcessingError (''PDF processing failed: '' @ message) ''PROCESSING_ERROR''
      | NotAnError \<Rightarrow>
          PDFProcessingError ''Unknown error occurred during PDF processing'' ''UNKNOWN_ERROR'')"

text \<open>\<open>const { onProgress, maxPages = 100, timeout = 60000 } = options\<close>.\<close>

definition maxPages_or_default :: "PDFProcessingOptions \<Rightarrow> nat" where
  "maxPages_or_default opts = (case maxPages opts of None \<Rightarrow> 100 | Some m \<Rightarrow> m)"

definition timeout_or_default :: "PDFProcessingOptions \<Rightarrow> nat" where
  "timeout_or_default opts = (case timeout opts of None \<Rightarrow> 60000 | Some t \<Rightarrow> t)"

definition processPDFFile ::
  "Environment \<Rightarrow> File \<Rightarrow> PDFProcessingOptions \<Rightarrow> thrown + PDFProcessingResult" where
  "processPDFFile env file opts =
     (let maxPages_opt = maxPages_or_default opts;
          timeout_opt = timeout_or_default opts
      in if \<not> workerSrc_set env
         then Inl (PDFProcessingError ''PDF processing is not available'' ''UNAVAILABLE'')
         else if file_type file \<noteq> ''application/pdf''
         then Inl (PDFProcessingError ''File is not a PDF'' ''INVALID_TYPE'')
         else if file_size file > 50 * 1024 * 1024
         then Inl (PDFProcessingError ''PDF file is too large (max 50MB)'' ''FILE_TOO_LARGE'')
         else (case race (processing env file maxPages_opt) timeout_opt of
                 Inl e \<Rightarrow> Inl (normalize_error e)
               | Inr r \<Rightarrow> Inr r))"

section \<open>Notions used in the properties\<close>

subsection \<open>From the specification\<close>

text \<open>
  The definitions of this subsection follow the words of the specification, not the
  code; the theorems below compare them with the code.
\<close>

text \<open>The zero-based index of an answer letter (A=0 .. D=3).\<close>

definition letter_index :: "char \<Rightarrow> int" where
  "letter_index c =
     (if c = CHR ''A'' then 0 else if c = CHR ''B'' then 1
      else if c = CHR ''C'' then 2 else if c = CHR ''D'' then 3 else 0)"

text \<open>A line that contains the marker \<open>correct:\<close> in any letter case.\<close>

definition has_correct_marker :: "string \<Rightarrow> bool" where
  "has_correct_marker line = str_includes (toLowerCase line) ''correct:''"

text \<open>
  The answer the specification describes: the index of the first letter A to D in the
  first line with the marker, and 0 when there is no such line or no such letter.
\<close>

definition spec_correctAnswer :: "string list \<Rightarrow> int" where
  "spec_correctAnswer lines =
     (case find has_correct_marker lines of
        None \<Rightarrow> 0
      | Some l \<Rightarrow> (case find (\<lambda>c. c \<in> set ''ABCD'') l of
                    None \<Rightarrow> 0
                  | Some c \<Rightarrow> letter_index c))"





subsection \<open>For the amended flashcard claim\<close>






subsection \<open>Observations on the store and on a run\<close>




text \<open>The page numbers that \<open>pdf.getPage\<close> was called with, in the order of the calls.\<close>

fun page_requested :: "enat \<times> event \<Rightarrow> nat option" where
  "page_requested (t, GetPageCalled p) = Some p"
| "page_requested (t, e) = None"

definition pages_requested :: "(enat \<times> event) list \<Rightarrow> nat list" where
  "pages_requested entries = List.map_filter page_requested entries"

section \<open>Example inputs\<close>

definition quiz_example :: string where
  "quiz_example =
     ''Q: What is HOL?'' @ [CHR 0x0A] @ ''A) a logic'' @ [CHR 0x0A] @ ''B) a bird'' @ [CHR 0x0A] @
     ''C) a car'' @ [CHR 0x0A] @ ''D) a tree'' @ [CHR 0x0A] @ ''Correct: B'' @ [CHR 0x0A] @
     ''Explanation: because''"

definition quiz_no_marker :: string where
  "quiz_no_marker =
     ''Q: What is HOL?'' @ [CHR 0x0A] @ ''a) a logic'' @ [CHR 0x0A] @ ''b) a bird'' @ [CHR 0x0A] @
     ''c) a car'' @ [CHR 0x0A] @ ''d) a tree'' @ [CHR 0x0A] @ ''the first one''"

definition quiz_seven_blocks :: string where
  "quiz_seven_blocks =
     (let valid = ''Q: q'' @ [CHR 0x0A] @ ''A) a'' @ [CHR 0x0A] @ ''B) b'' @ [CHR 0x0A] @
                  ''C) c'' @ [CHR 0x0A] @ ''D) d'' @ [CHR 0x0A] @ ''Correct: A'' @ [CHR 0x0A];
          short = ''Q: q'' @ [CHR 0x0A] @ ''A) a'' @ [CHR 0x0A]
      in valid @ short @ valid @ valid @ valid @ valid @ valid)"




definition notes_item :: NewContent where
  "notes_item = \<lparr> nc_title = ''Notes'', nc_type = T_text, nc_content = ''HOL is a logic.'',
     nc_summary = None, nc_flashcards = None, nc_quiz = None \<rparr>"

definition paper_item :: NewContent where
  "paper_item = \<lparr> nc_title = ''Paper'', nc_type = T_pdf, nc_content = ''Types and terms.'',
     nc_summary = None, nc_flashcards = None, nc_quiz = None \<rparr>"

definition notes_stored :: StudyContent where
  "notes_stored = \<lparr> sc_id = ''1001'', title = ''Notes'', sc_type = T_text,
     content = ''HOL is a logic.'', summary = None, flashcards = None, quiz = None,
     createdAt = 1001 \<rparr>"

definition paper_stored :: StudyContent where
  "paper_stored = \<lparr> sc_id = ''1002'', title = ''Paper'', sc_type = T_pdf,
     content = ''Types and terms.'', summary = None, flashcards = None, quiz = None,
     createdAt = 1002 \<rparr>"

definition third_item :: NewContent where
  "third_item = \<lparr> nc_title = ''Talk'', nc_type = T_text, nc_content = ''Sets and maps.'',
     nc_summary = None, nc_flashcards = None, nc_quiz = None \<rparr>"

definition third_stored :: StudyContent where
  "third_stored = \<lparr> sc_id = ''1003'', title = ''Talk'', sc_type = T_text,
     content = ''Sets and maps.'', summary = None, flashcards = None, quiz = None,
     createdAt = 1003 \<rparr>"

definition two_items :: ContentState where
  "two_items =
     addContent paper_item 1002 1002 (addContent notes_item 1001 1001 initialContentState)"

text \<open>The store after a third item was added to \<open>two_items\<close>; the new item is current.\<close>

definition three_items :: ContentState where
  "three_items = addContent third_item 1003 1003 two_items"

definition llama_model :: OllamaModel where
  "llama_model = \<lparr> model_name = ''llama2'', model_size = ''3826793677'',
     modified_at = ''2024-01-01T00:00:00Z'' \<rparr>"

definition connected_state :: OllamaState where
  "connected_state = initialOllamaState\<lparr> models := [llama_model], isConnected := True \<rparr>"

definition http_500 :: "string \<Rightarrow> OllamaModel list option fetch_result" where
  "http_500 url = FetchResponse False 500 ''Internal Server Error'' (Inr None)"

definition answering_server :: "string \<Rightarrow> string \<Rightarrow> string option fetch_result" where
  "answering_server model prompt = FetchResponse True 200 ''OK'' (Inr (Some ''A logic.''))"

definition pdf_file :: File where
  "pdf_file = \<lparr> file_type = ''application/pdf'', file_size = 2048, file_name = ''notes.pdf'' \<rparr>"

definition three_pages :: PDFDocumentProxy where
  "three_pages =
     \<lparr> pages = [TextContent 5 5 [''one''], TextContent 5 5 [''two''], TextContent 5 5 [''three'']],
       getMetadata_time = 1, getMetadata_result = None \<rparr>"

definition three_pages_env :: Environment where
  "three_pages_env =
     \<lparr> workerSrc_set = True, arrayBuffer_time = 1, arrayBuffer_result = Inr (),
       getDocument_time = 1, getDocument_result = Inr three_pages \<rparr>"

definition two_pages_max :: PDFProcessingOptions where
  "two_pages_max = \<lparr> maxPages = Some 2, timeout = Some 1000 \<rparr>"

definition three_pages_result :: PDFProcessingResult where
  "three_pages_result =
     \<lparr> result_text = ''one'' @ [CHR 0x0A, CHR 0x0A] @ ''two'', pageCount = 3,
       result_title = Some ''notes'', result_metadata = None \<rparr>"

definition stalling_pages :: PDFDocumentProxy where
  "stalling_pages =
     \<lparr> pages = [TextContent 5 5 [''partial''], TextContent 5 \<infinity> [''never'']],
       getMetadata_time = 1, getMetadata_result = None \<rparr>"

definition stalling_env :: Environment where
  "stalling_env =
     \<lparr> workerSrc_set = True, arrayBuffer_time = 1, arrayBuffer_result = Inr (),
       getDocument_time = 1, getDocument_result = Inr stalling_pages \<rparr>"

definition failing_page :: PDFDocumentProxy where
  "failing_page =
     \<lparr> pages = [GetTextContentRejects 5 5, TextContent 5 5 [''text'']],
       getMetadata_time = 1, getMetadata_result = None \<rparr>"

definition failing_page_env :: Environment where
  "failing_page_env =
     \<lparr> workerSrc_set = True, arrayBuffer_time = 1, arrayBuffer_result = Inr (),
       getDocument_time = 1, getDocument_result = Inr failing_page \<rparr>"

section \<open>Properties\<close>

subsection \<open>Strings\<close>

text \<open>\<open>split\<close> never gives an empty array, so the first piece of a line exists.\<close>

lemma split_from_not_Nil: "split_from sep acc s \<noteq> []"
  by (induction s arbitrary: acc) simp_all

lemma split_not_Nil: "sep \<noteq> [] \<Longrightarrow> split s sep \<noteq> []"
  by (simp add: split_def split_from_not_Nil)

subsection \<open>Quiz parsing\<close>

lemma char_of_65_68:
  "char_of (65::nat) = CHR ''A''" "char_of (66::nat) = CHR ''B''"
  "char_of (67::nat) = CHR ''C''" "char_of (68::nat) = CHR ''D''"
  by code_simp+

text \<open>The class \<open>[A-D]\<close> holds the four capital letters and nothing else.\<close>

lemma in_class_A_D_iff: "in_class_A_D c \<longleftrightarrow> c \<in> set ''ABCD''"
proof
  assume "in_class_A_D c"
  then have "(of_char c :: nat) = 65 \<or> (of_char c :: nat) = 66
      \<or> (of_char c :: nat) = 67 \<or> (of_char c :: nat) = 68"
    unfolding in_class_A_D_def by arith
  moreover have "n = of_char c \<Longrightarrow> c = char_of n" for n :: nat
    by simp
  ultimately have "c = char_of (65::nat) \<or> c = char_of (66::nat)
      \<or> c = char_of (67::nat) \<or> c = char_of (68::nat)"
    by metis
  then show "c \<in> set ''ABCD''"
    by (simp add: char_of_65_68)
next
  assume "c \<in> set ''ABCD''"
  then show "in_class_A_D c"
    by (auto simp: in_class_A_D_def)
qed

lemma match_A_D_find: "match_A_D l = find (\<lambda>c. c \<in> set ''ABCD'') l"
  by (induction l) (simp_all add: in_class_A_D_iff)

lemma array_indexOf_ABCD: "c \<in> set ''ABCD'' \<Longrightarrow> array_indexOf ''ABCD'' c = letter_index c"
  by (auto simp: letter_index_def)

lemma find_Some_pred: "find P xs = Some x \<Longrightarrow> P x"
  by (induction xs) (auto split: if_splits)

lemma letter_answer:
  "(case match_A_D l of None \<Rightarrow> 0 | Some c \<Rightarrow> array_indexOf ''ABCD'' c) =
   (case find (\<lambda>c. c \<in> set ''ABCD'') l of None \<Rightarrow> 0 | Some c \<Rightarrow> letter_index c)"
proof (cases "find (\<lambda>c. c \<in> set ''ABCD'') l")
  case None
  then show ?thesis by (simp only: match_A_D_find option.case)
next
  case (Some c)
  then have "c \<in> set ''ABCD''" by (rule find_Some_pred)
  then have "array_indexOf ''ABCD'' c = letter_index c" by (rule array_indexOf_ABCD)
  with Some show ?thesis by (simp only: match_A_D_find option.case)
qed

lemma makeQuestion_correctAnswer:
  "correctAnswer (makeQuestion cid i lines) = spec_correctAnswer lines"
proof -
  have marker: "(\<lambda>line. str_includes (toLowerCase line) ''correct:'') = has_correct_marker"
    by (simp add: fun_eq_iff has_correct_marker_def)
  show ?thesis
  proof (cases "find has_correct_marker lines")
    case None
    then show ?thesis
      by (simp add: makeQuestion_def spec_correctAnswer_def marker)
  next
    case (Some l)
    then show ?thesis
      using letter_answer [of l]
      by (simp add: makeQuestion_def spec_correctAnswer_def marker
            del: set_simps array_indexOf.simps)
  qed
qed

text \<open>
  The loop adds, to the questions it was given, the questions of the qualifying blocks
  among those from index \<open>i\<close> to index 4, in order.
\<close>

lemma quizLoop_char:
  "quizLoop cid blocks i qs =
     qs @ map (\<lambda>k. makeQuestion cid k (blockLines (blocks ! k)))
            (filter (\<lambda>k. 6 \<le> length (blockLines (blocks ! k))) [i..<min 5 (length blocks)])"
proof (induction cid blocks i qs rule: quizLoop.induct)
  case (1 cid blocks i questions)
  show ?case
  proof (cases "i < length blocks \<and> i < 5")
    case True
    then have upt: "[i..<min 5 (length blocks)] = i # [i + 1..<min 5 (length blocks)]"
      by (simp add: upt_conv_Cons)
    show ?thesis
    proof (cases "6 \<le> length (blockLines (blocks ! i))")
      case q: True
      from "1.IH"(1)[OF True q] True q upt show ?thesis
        by (subst quizLoop.simps) simp
    next
      case q: False
      from "1.IH"(2)[OF True q] True q upt show ?thesis
        by (subst quizLoop.simps) simp
    qed
  next
    case False
    then have "min 5 (length blocks) \<le> i" by auto
    then have e: "[i..<min 5 (length blocks)] = []" by simp
    from False have q: "quizLoop cid blocks i questions = questions"
      by (subst quizLoop.simps) auto
    show ?thesis unfolding q e by simp
  qed
qed

lemma parseQuiz_char:
  "parseQuiz cid quizText =
     map (\<lambda>k. makeQuestion cid k (blockLines (questionBlocks quizText ! k)))
       (filter (\<lambda>k. 6 \<le> length (blockLines (questionBlocks quizText ! k)))
          [0..<min 5 (length (questionBlocks quizText))])"
  by (simp add: parseQuiz_def quizLoop_char)

lemma qualifying_block_in_parse:
  assumes "i < length (questionBlocks quizText)" and "i < 5"
    and "6 \<le> length (blockLines (questionBlocks quizText ! i))"
  shows "makeQuestion cid i (blockLines (questionBlocks quizText ! i)) \<in> set (parseQuiz cid quizText)"
  using assms unfolding parseQuiz_char by auto

lemma toString_0: "toString 0 = ''0''"
  by code_simp

lemma quiz_example_eval:
  "length (questionBlocks quiz_example) = 1"
  "length (blockLines (questionBlocks quiz_example ! 0)) = 7"
  "spec_correctAnswer (blockLines (questionBlocks quiz_example ! 0)) = 2"
  "find has_correct_marker (blockLines (questionBlocks quiz_example ! 0)) = Some ''Correct: B''"
  by code_simp+

lemma quiz_no_marker_eval:
  "length (questionBlocks quiz_no_marker) = 1"
  "length (blockLines (questionBlocks quiz_no_marker ! 0)) = 6"
  "find has_correct_marker (blockLines (questionBlocks quiz_no_marker ! 0)) = None"
  "spec_correctAnswer (blockLines (questionBlocks quiz_no_marker ! 0)) = 0"
  by code_simp+

text \<open>
  C3: a block that is parsed (one of the first five) and has at least 6 non-empty lines
  yields a question, and its \<open>correctAnswer\<close> is the index (A=0 .. D=3) of the first
  letter A to D in the first line that contains \<open>correct:\<close> in any letter case, and 0
  when there is no such line or no such letter in it.
\<close>

theorem quiz_correctAnswer_first_letter:
  assumes "i < length (questionBlocks quizText)" and "i < 5"
    and "6 \<le> length (blockLines (questionBlocks quizText ! i))"
  shows "\<exists>q \<in> set (parseQuiz cid quizText).
           qq_id q = cid @ ''-quiz-'' @ toString i \<and>
           correctAnswer q = spec_correctAnswer (blockLines (questionBlocks quizText ! i))"
proof -
  let ?q = "makeQuestion cid i (blockLines (questionBlocks quizText ! i))"
  have "?q \<in> set (parseQuiz cid quizText)"
    using assms by (rule qualifying_block_in_parse)
  moreover have "qq_id ?q = cid @ ''-quiz-'' @ toString i"
    by (simp add: makeQuestion_def)
  moreover have "correctAnswer ?q = spec_correctAnswer (blockLines (questionBlocks quizText ! i))"
    by (rule makeQuestion_correctAnswer)
  ultimately show ?thesis by blast
qed

theorem quiz_correctAnswer_first_letter_witness:
  "0 < length (questionBlocks quiz_no_marker) \<and>
   6 \<le> length (blockLines (questionBlocks quiz_no_marker ! 0)) \<and>
   find has_correct_marker (blockLines (questionBlocks quiz_no_marker ! 0)) = None \<and>
   (\<exists>q \<in> set (parseQuiz ''7'' quiz_no_marker). qq_id q = ''7-quiz-0'' \<and> correctAnswer q = 0) \<and>
   find has_correct_marker (blockLines (questionBlocks quiz_example ! 0)) = Some ''Correct: B'' \<and>
   (\<exists>q \<in> set (parseQuiz ''7'' quiz_example). qq_id q = ''7-quiz-0'' \<and> correctAnswer q = 2)"
  using quiz_correctAnswer_first_letter [of 0 quiz_no_marker "''7''"]
    quiz_correctAnswer_first_letter [of 0 quiz_example "''7''"]
  by (simp add: quiz_no_marker_eval quiz_example_eval toString_0)

text \<open>
  C4: when the first line with the marker is \<open>Correct: X\<close>, as the prompt asks for, with
  X one of A, B and D, the parsed \<open>correctAnswer\<close> is 2, the index of the C of
  \<open>Correct\<close>, and not the index of X.
\<close>

theorem quiz_prompt_format_always_C:
  assumes "i < length (questionBlocks quizText)" and "i < 5"
    and "6 \<le> length (blockLines (questionBlocks quizText ! i))"
    and "find has_correct_marker (blockLines (questionBlocks quizText ! i)) =
           Some (''Correct: '' @ [x])"
    and "x \<in> set ''ABD''"
  shows "\<exists>q \<in> set (parseQuiz cid quizText).
           qq_id q = cid @ ''-quiz-'' @ toString i \<and>
           correctAnswer q = 2 \<and> correctAnswer q \<noteq> letter_index x"
proof -
  let ?lines = "blockLines (questionBlocks quizText ! i)"
  let ?q = "makeQuestion cid i ?lines"
  have "?q \<in> set (parseQuiz cid quizText)"
    using assms(1-3) by (rule qualifying_block_in_parse)
  moreover have "qq_id ?q = cid @ ''-quiz-'' @ toString i"
    by (simp add: makeQuestion_def)
  moreover have "spec_correctAnswer ?lines = 2"
    using assms(4) by (simp add: spec_correctAnswer_def letter_index_def)
  then have "correctAnswer ?q = 2"
    by (simp only: makeQuestion_correctAnswer)
  moreover have "letter_index x \<noteq> 2"
    using assms(5) by (auto simp: letter_index_def)
  ultimately show ?thesis by auto
qed

theorem quiz_prompt_format_always_C_witness:
  "0 < length (questionBlocks quiz_example) \<and>
   6 \<le> length (blockLines (questionBlocks quiz_example ! 0)) \<and>
   find has_correct_marker (blockLines (questionBlocks quiz_example ! 0)) = Some ''Correct: B'' \<and>
   (\<exists>q \<in> set (parseQuiz ''7'' quiz_example).
      qq_id q = ''7-quiz-0'' \<and> correctAnswer q = 2 \<and> correctAnswer q \<noteq> 1)"
  using quiz_prompt_format_always_C [of 0 quiz_example "CHR ''B''" "''7''"]
  by (simp add: quiz_example_eval toString_0 letter_index_def)

text \<open>
  C6: the parse returns at most 5 questions. It returns exactly the questions of the
  blocks, among the first five, that have at least 6 non-empty lines, in order: a
  shorter block adds nothing and does not stop the parse of the blocks after it. Every
  question returned has its four options.
\<close>

theorem quiz_at_most_five_short_blocks_skipped:
  "length (parseQuiz cid quizText) \<le> 5 \<and>
   parseQuiz cid quizText =
     map (\<lambda>k. makeQuestion cid k (blockLines (questionBlocks quizText ! k)))
       (filter (\<lambda>k. 6 \<le> length (blockLines (questionBlocks quizText ! k)))
          [0..<min 5 (length (questionBlocks quizText))]) \<and>
   (\<forall>q \<in> set (parseQuiz cid quizText). length (options q) = 4)"
proof -
  let ?ks = "filter (\<lambda>k. 6 \<le> length (blockLines (questionBlocks quizText ! k)))
          [0..<min 5 (length (questionBlocks quizText))]"
  have "length ?ks \<le> length [0..<min 5 (length (questionBlocks quizText))]"
    by (rule length_filter_le)
  then have "length (parseQuiz cid quizText) \<le> 5"
    unfolding parseQuiz_char by simp
  moreover have "length (options (makeQuestion cid k lines)) = 4" if "6 \<le> length lines" for k lines
    using that by (simp add: makeQuestion_def slice_def)
  then have "\<forall>q \<in> set (parseQuiz cid quizText). length (options q) = 4"
    unfolding parseQuiz_char by auto
  ultimately show ?thesis
    using parseQuiz_char by blast
qed

lemma quiz_seven_blocks_eval:
  "length (questionBlocks quiz_seven_blocks) = 7"
  "map qq_id (parseQuiz ''7'' quiz_seven_blocks) =
     [''7-quiz-0'', ''7-quiz-2'', ''7-quiz-3'', ''7-quiz-4'']"
  by code_simp+

theorem quiz_at_most_five_short_blocks_skipped_witness:
  "length (questionBlocks quiz_seven_blocks) = 7 \<and>
   length (parseQuiz ''7'' quiz_seven_blocks) = 4 \<and>
   length (parseQuiz ''7'' quiz_seven_blocks) \<le> 5 \<and>
   list_all (\<lambda>q. length (options q) = 4) (parseQuiz ''7'' quiz_seven_blocks)"
proof -
  have "length (map qq_id (parseQuiz ''7'' quiz_seven_blocks)) = 4"
    by (simp only: quiz_seven_blocks_eval) simp
  then have "length (parseQuiz ''7'' quiz_seven_blocks) = 4" by simp
  with quiz_at_most_five_short_blocks_skipped [of "''7''" quiz_seven_blocks]
  show ?thesis by (simp add: quiz_seven_blocks_eval(1) list_all_iff)
qed

subsection \<open>Flashcard parsing\<close>






text \<open>
  \<open>trim\<close> removes white space only, from the two ends, and what it gives neither starts
  nor ends with white space.
\<close>

lemma trim_removes_white_space:
  "\<exists>pre post. s = pre @ trim s @ post \<and> list_all isWhiteSpace pre \<and> list_all isWhiteSpace post"
proof -
  let ?t = "dropWhile isWhiteSpace s"
  let ?u = "dropWhile isWhiteSpace (rev ?t)"
  have "rev ?t = takeWhile isWhiteSpace (rev ?t) @ ?u" by simp
  then have "?t = rev ?u @ rev (takeWhile isWhiteSpace (rev ?t))"
    by (metis rev_append rev_rev_ident)
  then have "s = takeWhile isWhiteSpace s @ trim s @ rev (takeWhile isWhiteSpace (rev ?t))"
    by (metis takeWhile_dropWhile_id trim_def)
  moreover have "list_all isWhiteSpace (takeWhile isWhiteSpace s)"
    by (auto simp: list_all_iff dest: set_takeWhileD)
  moreover have "list_all isWhiteSpace (rev (takeWhile isWhiteSpace (rev ?t)))"
    by (auto simp: list_all_iff dest: set_takeWhileD)
  ultimately show ?thesis by blast
qed














subsection \<open>Content store\<close>













lemma two_items_eval:
  "contents two_items = [notes_stored, paper_stored]"
  "currentContent two_items = Some paper_stored"
  by code_simp+

lemma three_items_eval:
  "contents three_items = [notes_stored, paper_stored, third_stored]"
  "currentContent three_items = Some third_stored"
  by code_simp+

lemma stored_ids:
  "sc_id notes_stored = ''1001''" "sc_id paper_stored = ''1002''"
  "sc_id third_stored = ''1003''"
  by (simp_all add: notes_stored_def paper_stored_def third_stored_def)




subsection \<open>Generation operations\<close>

lemma spread_one_field:
  "spread x (no_updates\<lparr> u_summary := Some v \<rparr>) = x\<lparr> summary := Some v \<rparr>"
  "spread x (no_updates\<lparr> u_flashcards := Some fs \<rparr>) = x\<lparr> flashcards := Some fs \<rparr>"
  "spread x (no_updates\<lparr> u_quiz := Some qs \<rparr>) = x\<lparr> quiz := Some qs \<rparr>"
  by (simp_all add: spread_def no_updates_def)

text \<open>
  Called with the id of the closure's current item, \<open>updateContent\<close> merges the updates
  into the stored items with that id and into the item of the current cell of the
  latest state, whichever item that is.
\<close>

lemma updateContent_of_closure:
  "updateContent (Some cur) (sc_id cur) u s =
     \<lparr> contents = map (\<lambda>x. if sc_id x = sc_id cur then spread x u else x) (contents s),
       currentContent = map_option (\<lambda>prev. spread prev u) (currentContent s) \<rparr>"
  by (simp add: updateContent_def split: option.splits)

text \<open>
  In the stored collection, a generation that succeeds replaces one field of the items
  with the id of the item that was current at the click, and nothing else; the item in
  the current cell when the response arrives gets that field too.
\<close>

lemma generateSummary_success:
  assumes "generateSummary isDeployed fetch ollama s_click s_settled = (s', ToastSuccess m)"
  shows "\<exists>cur v. currentContent s_click = Some cur \<and>
           contents s' =
             map (\<lambda>x. if sc_id x = sc_id cur then x\<lparr> summary := Some v \<rparr> else x)
               (contents (store_at_update isDeployed s_click s_settled)) \<and>
           currentContent s' =
             map_option (\<lambda>x. x\<lparr> summary := Some v \<rparr>)
               (currentContent (store_at_update isDeployed s_click s_settled))"
proof (cases "currentContent s_click")
  case None
  with assms show ?thesis by (simp add: generateSummary_def)
next
  case (Some cur)
  with assms obtain v
    where "s' = updateContent (Some cur) (sc_id cur) (no_updates\<lparr> u_summary := Some v \<rparr>)
                  (store_at_update isDeployed s_click s_settled)"
    by (auto simp: generateSummary_def split: if_splits sum.splits)
  then have
    "contents s' =
       map (\<lambda>x. if sc_id x = sc_id cur then x\<lparr> summary := Some v \<rparr> else x)
         (contents (store_at_update isDeployed s_click s_settled))"
    "currentContent s' =
       map_option (\<lambda>x. x\<lparr> summary := Some v \<rparr>)
         (currentContent (store_at_update isDeployed s_click s_settled))"
    by (simp_all add: updateContent_of_closure spread_one_field)
  with Some show ?thesis by blast
qed

lemma generateFlashcards_success:
  assumes "generateFlashcards isDeployed fetch ollama s_click s_settled = (s', ToastSuccess m)"
  shows "\<exists>cur v. currentContent s_click = Some cur \<and>
           contents s' =
             map (\<lambda>x. if sc_id x = sc_id cur then x\<lparr> flashcards := Some v \<rparr> else x)
               (contents (store_at_update isDeployed s_click s_settled)) \<and>
           currentContent s' =
             map_option (\<lambda>x. x\<lparr> flashcards := Some v \<rparr>)
               (currentContent (store_at_update isDeployed s_click s_settled))"
proof (cases "currentContent s_click")
  case None
  with assms show ?thesis by (simp add: generateFlashcards_def)
next
  case (Some cur)
  with assms obtain v
    where "s' = updateContent (Some cur) (sc_id cur) (no_updates\<lparr> u_flashcards := Some v \<rparr>)
                  (store_at_update isDeployed s_click s_settled)"
    by (auto simp: generateFlashcards_def Let_def split: if_splits sum.splits)
  then have
    "contents s' =
       map (\<lambda>x. if sc_id x = sc_id cur then x\<lparr> flashcards := Some v \<rparr> else x)
         (contents (store_at_update isDeployed s_click s_settled))"
    "currentContent s' =
       map_option (\<lambda>x. x\<lparr> flashcards := Some v \<rparr>)
         (currentContent (store_at_update isDeployed s_click s_settled))"
    by (simp_all add: updateContent_of_closure spread_one_field)
  with Some show ?thesis by blast
qed

lemma generateQuiz_success:
  assumes "generateQuiz isDeployed fetch ollama s_click s_settled = (s', ToastSuccess m)"
  shows "\<exists>cur v. currentContent s_click = Some cur \<and>
           contents s' =
             map (\<lambda>x. if sc_id x = sc_id cur then x\<lparr> quiz := Some v \<rparr> else x)
               (contents (store_at_update isDeployed s_click s_settled)) \<and>
           currentContent s' =
             map_option (\<lambda>x. x\<lparr> quiz := Some v \<rparr>)
               (currentContent (store_at_update isDeployed s_click s_settled))"
proof (cases "currentContent s_click")
  case None
  with assms show ?thesis by (simp add: generateQuiz_def)
next
  case (Some cur)
  with assms obtain v
    where "s' = updateContent (Some cur) (sc_id cur) (no_updates\<lparr> u_quiz := Some v \<rparr>)
                  (store_at_update isDeployed s_click s_settled)"
    by (auto simp: generateQuiz_def Let_def split: if_splits sum.splits)
  then have
    "contents s' =
       map (\<lambda>x. if sc_id x = sc_id cur then x\<lparr> quiz := Some v \<rparr> else x)
         (contents (store_at_update isDeployed s_click s_settled))"
    "currentContent s' =
       map_option (\<lambda>x. x\<lparr> quiz := Some v \<rparr>)
         (currentContent (store_at_update isDeployed s_click s_settled))"
    by (simp_all add: updateContent_of_closure spread_one_field)
  with Some show ?thesis by blast
qed

text \<open>
  When the store did not change between the click and the response, the run is as C8
  says: the current item and its stored copy get the summary, the other item is as
  before.
\<close>

lemma summary_run_unchanged_store:
  "generateSummary False answering_server connected_state two_items two_items =
     (\<lparr> contents = [notes_stored, paper_stored\<lparr> summary := Some ''A logic.'' \<rparr>],
        currentContent = Some (paper_stored\<lparr> summary := Some ''A logic.'' \<rparr>) \<rparr>,
      ToastSuccess ''Summary generated successfully!'')"
  by (simp add: generateSummary_def two_items_eval generateText_def connected_state_def
      initialOllamaState_def answering_server_def updateContent_def spread_one_field
      stored_ids store_at_update_def)

text \<open>
  C8 fails on the code. The store holds the items 1001 and 1002, and 1002 is current;
  the summary is requested; while \<open>generateText\<close> is awaited a third item, 1003, is
  added and becomes current; then the model answers. \<open>updateContent\<close> runs with the
  closure of the click: the stored item 1002 gets the summary, and the test
  \<open>currentContent?.id === id\<close> on the closure's item 1002 passes, so the summary of 1002
  is merged into the item of the current cell, which is 1003. The stored items 1001 and
  1003 are as before, but the current copy of 1003 now carries the summary of 1002.
\<close>

theorem stale_generation_changes_other_item:
  "currentContent two_items = Some paper_stored \<and>
   contents three_items = [notes_stored, paper_stored, third_stored] \<and>
   currentContent three_items = Some third_stored \<and>
   sc_id third_stored \<noteq> sc_id paper_stored \<and>
   summary third_stored = None \<and>
   generateSummary False answering_server connected_state two_items three_items =
     (\<lparr> contents = [notes_stored, paper_stored\<lparr> summary := Some ''A logic.'' \<rparr>, third_stored],
        currentContent = Some (third_stored\<lparr> summary := Some ''A logic.'' \<rparr>) \<rparr>,
      ToastSuccess ''Summary generated successfully!'') \<and>
   summary (third_stored\<lparr> summary := Some ''A logic.'' \<rparr>) \<noteq> summary third_stored"
proof -
  have "generateSummary False answering_server connected_state two_items three_items =
     (\<lparr> contents = [notes_stored, paper_stored\<lparr> summary := Some ''A logic.'' \<rparr>, third_stored],
        currentContent = Some (third_stored\<lparr> summary := Some ''A logic.'' \<rparr>) \<rparr>,
      ToastSuccess ''Summary generated successfully!'')"
    by (simp add: generateSummary_def two_items_eval three_items_eval generateText_def
        connected_state_def initialOllamaState_def answering_server_def
        updateContent_def spread_one_field stored_ids store_at_update_def)
  moreover have "summary third_stored = None"
    by (simp add: third_stored_def)
  ultimately show ?thesis
    by (simp add: two_items_eval three_items_eval stored_ids)
qed

subsection \<open>Model listing\<close>

text \<open>When the request is rejected (network failure, timeout), the list is emptied.\<close>

lemma loadModels_rejected:
  "fetch (ollamaUrl s @ ''/api/tags'') = FetchRejects e \<Longrightarrow>
   models (loadModels False fetch s) = [] \<and> \<not> isConnected (loadModels False fetch s)"
  by (simp add: loadModels_def loadModels_catch_def)

text \<open>
  C9 fails on the code. With one model loaded, \<open>loadModels\<close> on a response of status 500
  leaves the client disconnected, but the model list still holds the model: the branch
  for a response that is not \<open>ok\<close> does not call \<open>setModels([])\<close>, which the \<open>catch\<close>
  block and the deployed branch do.
\<close>

theorem loadModels_http_error_keeps_models:
  "models connected_state = [llama_model] \<and>
   models (loadModels False http_500 connected_state) = [llama_model] \<and>
   models (loadModels False http_500 connected_state) \<noteq> [] \<and>
   isConnected (loadModels False http_500 connected_state) = False"
  by (simp add: loadModels_def http_500_def connected_state_def initialOllamaState_def)

subsection \<open>PDF text extraction\<close>

lemma pages_requested_append:
  "pages_requested (xs @ ys) = pages_requested xs @ pages_requested ys"
  by (induction xs) (simp_all add: pages_requested_def split: option.splits)

lemma pages_requested_simps:
  "pages_requested [] = []"
  "pages_requested ((t, GetPageCalled p) # xs) = p # pages_requested xs"
  "pages_requested ((t, Progress v) # xs) = pages_requested xs"
  "pages_requested ((t, PageAcquired p) # xs) = pages_requested xs"
  "pages_requested ((t, PageCleanup p) # xs) = pages_requested xs"
  "pages_requested ((t, Warn p) # xs) = pages_requested xs"
  "pages_requested ((t, Destroy) # xs) = pages_requested xs"
  by (simp_all add: pages_requested_def)

lemma pages_requested_processPage:
  "pages_requested (run_log (processPage pdf n k st)) = pages_requested (run_log st) @ [k]"
  by (cases "getPage pdf k")
     (simp_all add: processPage_def pages_requested_append pages_requested_simps)

text \<open>The loop calls \<open>getPage\<close> for the page numbers from \<open>k\<close> to \<open>n\<close>, in order.\<close>

lemma pageLoop_requested:
  "k \<le> Suc n \<Longrightarrow>
   pages_requested (run_log (pageLoop pdf n k st)) = pages_requested (run_log st) @ [k..<Suc n]"
proof (induction pdf n k st rule: pageLoop.induct)
  case (1 pdf n pageNum st)
  show ?case
  proof (cases "pageNum \<le> n")
    case True
    then have "pageNum + 1 \<le> Suc n" by simp
    from "1.IH" [OF True this] True show ?thesis
      by (subst pageLoop.simps) (simp add: pages_requested_processPage upt_conv_Cons)
  next
    case False
    with "1.prems" have "pageNum = Suc n" by simp
    with False show ?thesis
      by (subst pageLoop.simps) simp
  qed
qed

lemma processing_requested:
  assumes "arrayBuffer_result env = Inr u" and "getDocument_result env = Inr pdf"
  shows "pages_requested (events (processing env file m)) = [1..<Suc (min (numPages pdf) m)]"
proof -
  define n where "n = min (numPages pdf) m"
  define st0 where "st0 =
     \<lparr> fullText = [], clock = arrayBuffer_time env + getDocument_time env + getMetadata_time pdf,
       run_log = [(arrayBuffer_time env, Progress (Fixed 15)),
                  (arrayBuffer_time env + getDocument_time env, Progress (Fixed 25)),
                  (arrayBuffer_time env + getDocument_time env + getMetadata_time pdf,
                   Progress (Fixed 30))] \<rparr>"
  have "pages_requested (run_log st0) = []"
    by (simp add: st0_def pages_requested_simps)
  with pageLoop_requested [of 1 n pdf st0]
  have loop: "pages_requested (run_log (pageLoop pdf n 1 st0)) = [1..<Suc n]"
    by simp
  have "pages_requested (events (processing env file m)) =
        pages_requested (run_log (pageLoop pdf n 1 st0))"
    using assms
    by (simp add: processing_def Let_def pages_requested_append pages_requested_simps
          n_def st0_def del: upt_Suc)
  with loop show ?thesis by (simp only: n_def)
qed

lemma processPDFFile_Inr:
  assumes "processPDFFile env file opts = Inr r"
  shows "outcome (processing env file (maxPages_or_default opts)) = Inr r"
  using assms
  by (auto simp: processPDFFile_def race_def Let_def split: if_splits sum.splits)

lemma processing_Inr:
  assumes "outcome (processing env file m) = Inr r"
  shows "\<exists>pdf full. getDocument_result env = Inr pdf \<and> arrayBuffer_result env = Inr () \<and>
           r = result_of file pdf full"
  using assms
  by (auto simp: processing_def Let_def split: if_splits sum.splits)

lemma pageText_examples:
  "pageText [''one''] = ''one''" "pageText [''two''] = ''two''"
  "pageText [''text''] = ''text''" "pageText [''partial''] = ''partial''"
  by code_simp+

lemma trim_examples:
  "trim (''one'' @ [CHR 0x0A, CHR 0x0A] @ ''two'' @ [CHR 0x0A, CHR 0x0A]) =
     ''one'' @ [CHR 0x0A, CHR 0x0A] @ ''two''"
  "trim (''text'' @ [CHR 0x0A, CHR 0x0A]) = ''text''"
  "replace ''notes.pdf'' ''.pdf'' [] = ''notes''"
  by code_simp+

lemma three_pages_processing:
  "processing three_pages_env pdf_file 2 =
     \<lparr> outcome = Inr three_pages_result, settled_at = 23,
       events =
         [(1, Progress (Fixed 15)), (2, Progress (Fixed 25)), (3, Progress (Fixed 30)),
          (3, GetPageCalled 1), (8, PageAcquired 1), (13, Progress (PageFraction 1 2)),
          (13, PageCleanup 1), (13, GetPageCalled 2), (18, PageAcquired 2),
          (23, Progress (PageFraction 2 2)), (23, PageCleanup 2),
          (23, Progress (Fixed 95)), (23, Destroy), (23, Progress (Fixed 100))] \<rparr>"
  using trim_examples
  by (simp add: processing_def three_pages_env_def three_pages_def numPages_def Let_def
      pageLoop.simps processPage_def getPage_def pageText_examples result_of_def
      three_pages_result_def pdf_file_def)

lemma two_pages_max_facts:
  "maxPages_or_default two_pages_max = 2"
  "timeout_or_default two_pages_max = 1000"
  "maxPages two_pages_max = Some 2"
  by (simp_all add: two_pages_max_def maxPages_or_default_def timeout_or_default_def)

lemma three_pages_facts:
  "getDocument_result three_pages_env = Inr three_pages"
  "numPages three_pages = 3"
  "pageCount three_pages_result = 3"
  by (simp_all add: three_pages_env_def three_pages_def numPages_def three_pages_result_def)

lemma three_pages_run:
  "processPDFFile three_pages_env pdf_file two_pages_max = Inr three_pages_result"
  by (simp add: processPDFFile_def race_def two_pages_max_facts three_pages_processing)
     (simp add: three_pages_env_def pdf_file_def)

text \<open>
  C1, as stated, fails: a document of three pages read with \<open>maxPages = 2\<close> is ingested
  with success, two pages are processed, and the returned \<open>pageCount\<close> is 3, not
  \<open>min 3 2\<close>.
\<close>

theorem pageCount_clamped_counterexample:
  "processPDFFile three_pages_env pdf_file two_pages_max = Inr three_pages_result \<and>
   maxPages two_pages_max = Some 2 \<and>
   numPages three_pages > 2 \<and>
   pageCount three_pages_result \<noteq> min (numPages three_pages) 2"
  by (simp add: three_pages_run three_pages_facts two_pages_max_facts)

text \<open>
  C1, amended: for every PDF ingestion that succeeds, the returned \<open>pageCount\<close> is the
  page count of the document (\<open>pdf.numPages\<close>), also when it exceeds \<open>maxPages\<close>; the
  clamp \<open>min(actualPages, maxPages)\<close> bounds the pages that are processed, which are the
  pages 1 to that minimum, in order.
\<close>

theorem pageCount_is_document_page_count:
  assumes "processPDFFile env file opts = Inr r" and "getDocument_result env = Inr pdf"
  shows "pageCount r = numPages pdf \<and>
         pages_requested (events (processing env file (maxPages_or_default opts))) =
           [1..<Suc (min (numPages pdf) (maxPages_or_default opts))]"
proof -
  from assms(1) have "outcome (processing env file (maxPages_or_default opts)) = Inr r"
    by (rule processPDFFile_Inr)
  then obtain pdf' full where *: "getDocument_result env = Inr pdf'"
      "arrayBuffer_result env = Inr ()" "r = result_of file pdf' full"
    using processing_Inr by blast
  with assms(2) have "pdf' = pdf" by simp
  with * have "pageCount r = numPages pdf"
    by (simp add: result_of_def Let_def)
  moreover have "pages_requested (events (processing env file (maxPages_or_default opts))) =
           [1..<Suc (min (numPages pdf) (maxPages_or_default opts))]"
    using *(2) assms(2) by (rule processing_requested)
  ultimately show ?thesis by simp
qed

theorem pageCount_is_document_page_count_witness:
  "processPDFFile three_pages_env pdf_file two_pages_max = Inr three_pages_result \<and>
   getDocument_result three_pages_env = Inr three_pages \<and>
   pageCount three_pages_result = 3 \<and>
   pages_requested (events (processing three_pages_env pdf_file 2)) = [1, 2]"
proof -
  have "[1..<Suc (min 3 2)] = [1, 2::nat]" by code_simp
  with pageCount_is_document_page_count [OF three_pages_run three_pages_facts(1)]
  show ?thesis
    by (simp add: three_pages_run three_pages_facts two_pages_max_facts)
qed

text \<open>
  C2: when the checks before the extraction pass and the timer fires before the
  processing promise settles (which includes a processing that never settles),
  \<open>processPDFFile\<close> fails with the error of code \<open>TIMEOUT\<close>; it does not succeed with
  any result, so not with the text accumulated so far.
\<close>

theorem timeout_wins_race:
  assumes "workerSrc_set env" and "file_type file = ''application/pdf''"
    and "file_size file \<le> 50 * 1024 * 1024"
    and "enat (timeout_or_default opts) < settled_at (processing env file (maxPages_or_default opts))"
  shows "processPDFFile env file opts =
           Inl (PDFProcessingError ''PDF processing timed out'' ''TIMEOUT'') \<and>
         (\<forall>r. processPDFFile env file opts \<noteq> Inr r)"
proof -
  from assms(4)
  have "\<not> settled_at (processing env file (maxPages_or_default opts)) <
           enat (timeout_or_default opts)"
    by (simp add: not_less order.strict_implies_order)
  with assms(1-3) show ?thesis
    by (simp add: processPDFFile_def race_def Let_def normalize_error_def)
qed

lemma stalling_facts:
  "workerSrc_set stalling_env" "file_type pdf_file = ''application/pdf''"
  "file_size pdf_file \<le> 50 * 1024 * 1024"
  by (simp_all add: stalling_env_def pdf_file_def)

lemma stalling_first_page:
  "fullText (processPage stalling_pages 2 1 \<lparr> fullText = [], clock = 3, run_log = [] \<rparr>) \<noteq> []"
  by (simp add: processPage_def getPage_def numPages_def stalling_pages_def pageText_examples)

lemma stalling_never_settles:
  "settled_at (processing stalling_env pdf_file 2) = \<infinity>"
  by (simp add: processing_def stalling_env_def stalling_pages_def numPages_def Let_def
      pageLoop.simps processPage_def getPage_def)

theorem timeout_wins_race_witness:
  "fullText (processPage stalling_pages 2 1 \<lparr> fullText = [], clock = 3, run_log = [] \<rparr>) \<noteq> [] \<and>
   enat 1000 < settled_at (processing stalling_env pdf_file 2) \<and>
   processPDFFile stalling_env pdf_file two_pages_max =
     Inl (PDFProcessingError ''PDF processing timed out'' ''TIMEOUT'')"
proof -
  have late: "enat (timeout_or_default two_pages_max) <
      settled_at (processing stalling_env pdf_file (maxPages_or_default two_pages_max))"
    by (simp add: two_pages_max_facts stalling_never_settles)
  from timeout_wins_race [OF stalling_facts late] stalling_first_page show ?thesis
    by (simp add: stalling_never_settles)
qed

text \<open>
  C10 fails on the code. A document of two pages, where \<open>getTextContent\<close> rejects for
  page 1: the page was acquired (at 8 ms) and the failure logged (at 13 ms), but
  \<open>page.cleanup()\<close> is never called for page 1, since it is the last statement of the
  \<open>try\<close> block and not in a \<open>finally\<close>. Page 2 is cleaned up and the document is destroyed.
\<close>

theorem page_cleanup_skipped_on_failure:
  "(8, PageAcquired 1) \<in> set (events (processing failing_page_env pdf_file 100)) \<and>
   (13, Warn 1) \<in> set (events (processing failing_page_env pdf_file 100)) \<and>
   PageCleanup 1 \<notin> snd ` set (events (processing failing_page_env pdf_file 100)) \<and>
   (23, PageCleanup 2) \<in> set (events (processing failing_page_env pdf_file 100)) \<and>
   (23, Destroy) \<in> set (events (processing failing_page_env pdf_file 100))"
proof -
  have "events (processing failing_page_env pdf_file 100) =
      [(1, Progress (Fixed 15)), (2, Progress (Fixed 25)),
       (3, Progress (Fixed 30)), (3, GetPageCalled 1), (8, PageAcquired 1),
       (13, Warn 1), (13, GetPageCalled 2), (18, PageAcquired 2),
       (23, Progress (PageFraction 2 2)), (23, PageCleanup 2),
       (23, Progress (Fixed 95)), (23, Destroy),
       (23, Progress (Fixed 100))]"
    using trim_examples
    by (simp add: processing_def failing_page_env_def failing_page_def numPages_def Let_def
        pageLoop.simps processPage_def getPage_def pageText_examples)
  then show ?thesis by simp
qed

end
